theory Spec2Isabelle
  imports Complex_Main
begin

section \<open>The globe of \<open>js/script.js\<close>: projection, borders, rotation, navigation\<close>

text \<open>
  JavaScript numbers are modelled as real numbers: the arithmetic of the source is read
  over exact reals, without the rounding of IEEE doubles.
\<close>

subsection \<open>Geographic projection\<close>

record vector3 =
  vec_x :: real
  vec_y :: real
  vec_z :: real

text \<open>\<open>latLonToVector3(lat, lon, radius)\<close>, lines 65-74.\<close>

definition latLonToVector3 :: "real \<Rightarrow> real \<Rightarrow> real \<Rightarrow> vector3" where
  "latLonToVector3 lat lon radius =
     (let phi = (90 - lat) * (pi / 180);
          theta = (lon + 180) * (pi / 180);
          x = - radius * sin phi * cos theta;
          y = radius * cos phi;
          z = radius * sin phi * sin theta
      in \<lparr>vec_x = x, vec_y = y, vec_z = z\<rparr>)"

subsection \<open>Rotation state of the three layers\<close>

text \<open>
  A \<open>THREE.Euler\<close>: the rotation of an object about its x, y and z axes. The rotation
  order is never changed by the source and is left out.
\<close>

record euler =
  rot_x :: real
  rot_y :: real
  rot_z :: real

text \<open>
  The mutable state of the first closure: the \<open>rotation\<close> of \<open>earthMesh\<close>,
  \<open>cloudMesh\<close> and \<open>bordersGroup\<close>, and the variables \<open>lastTime\<close>, \<open>isDragging\<close> and
  \<open>previousMousePosition\<close>.
\<close>

record globe =
  earthMesh :: euler
  cloudMesh :: euler
  bordersGroup :: euler
  lastTime :: real
  isDragging :: bool
  previousMousePosition :: "real \<times> real"

definition euler0 :: euler where
  "euler0 = \<lparr>rot_x = 0, rot_y = 0, rot_z = 0\<rparr>"

text \<open>
  The state when the closure has run: new objects have the zero rotation, \<open>lastTime = 0\<close>
  (line 138), \<open>isDragging = false\<close> and \<open>previousMousePosition = {x: 0, y: 0}\<close>
  (lines 156-157).
\<close>

definition initialGlobe :: globe where
  "initialGlobe = \<lparr>earthMesh = euler0, cloudMesh = euler0, bordersGroup = euler0,
     lastTime = 0, isDragging = False, previousMousePosition = (0, 0)\<rparr>"

text \<open>
  \<open>v || 0\<close> on a number: \<open>0\<close> when \<open>v\<close> is falsy, else \<open>v\<close>. The only other falsy
  number, NaN, does not arise from the finite timestamps that \<open>requestAnimationFrame\<close>
  passes.
\<close>

definition orZero :: "real \<Rightarrow> real" where
  "orZero v = (if v = 0 then 0 else v)"

text \<open>
  \<open>animate(t)\<close>, lines 139-152. Rendering the frame and requesting the next one do not
  change the state.
\<close>

definition animate :: "real \<Rightarrow> globe \<Rightarrow> globe" where
  "animate t g =
     (let delta = orZero ((t - lastTime g) / 1000);
          g1 = g\<lparr>lastTime := t\<rparr>;
          g2 = g1\<lparr>earthMesh := (earthMesh g1)\<lparr>rot_y := rot_y (earthMesh g1) + 0.08 * delta\<rparr>\<rparr>;
          g3 = g2\<lparr>cloudMesh := (cloudMesh g2)\<lparr>rot_y := rot_y (cloudMesh g2) + 0.095 * delta\<rparr>\<rparr>
      in g3\<lparr>bordersGroup := (bordersGroup g3)\<lparr>rot_y := rot_y (earthMesh g3)\<rparr>\<rparr>)"

text \<open>The \<open>pointerdown\<close> handler, lines 159-162, at \<open>(e.clientX, e.clientY)\<close>.\<close>

definition pointerdown :: "real \<times> real \<Rightarrow> globe \<Rightarrow> globe" where
  "pointerdown e g = g\<lparr>isDragging := True, previousMousePosition := e\<rparr>"

text \<open>The \<open>pointerup\<close> handler, lines 163-165.\<close>

definition pointerup :: "globe \<Rightarrow> globe" where
  "pointerup g = g\<lparr>isDragging := False\<rparr>"

text \<open>
  The \<open>pointermove\<close> handler, lines 166-184. \<open>rotation.copy\<close> assigns the x, y and z of
  the argument.
\<close>

definition rotationSpeed :: real where
  "rotationSpeed = 0.005"

definition pointermove :: "real \<times> real \<Rightarrow> globe \<Rightarrow> globe" where
  "pointermove e g =
     (if \<not> isDragging g then g
      else
        let deltaMove = (fst e - fst (previousMousePosition g),
                         snd e - snd (previousMousePosition g));
            g1 = g\<lparr>earthMesh := (earthMesh g)\<lparr>rot_y := rot_y (earthMesh g) + fst deltaMove * rotationSpeed\<rparr>\<rparr>;
            g2 = g1\<lparr>earthMesh := (earthMesh g1)\<lparr>rot_x := rot_x (earthMesh g1) + snd deltaMove * rotationSpeed * 0.5\<rparr>\<rparr>;
            g3 = g2\<lparr>cloudMesh := earthMesh g2\<rparr>;
            g4 = g3\<lparr>bordersGroup := earthMesh g3\<rparr>
        in g4\<lparr>previousMousePosition := e\<rparr>)"

text \<open>The events the host delivers to the closure, and a run of them in order.\<close>

datatype event =
  AnimationFrame real
  | PointerDown "real \<times> real"
  | PointerUp
  | PointerMove "real \<times> real"

fun dispatch :: "event \<Rightarrow> globe \<Rightarrow> globe" where
  "dispatch (AnimationFrame t) g = animate t g"
| "dispatch (PointerDown e) g = pointerdown e g"
| "dispatch PointerUp g = pointerup g"
| "dispatch (PointerMove e) g = pointermove e g"

fun run :: "event list \<Rightarrow> globe \<Rightarrow> globe" where
  "run [] g = g"
| "run (ev # evs) g = run evs (dispatch ev g)"

subsection \<open>JavaScript values and exceptions\<close>

text \<open>
  The values the border code handles: what \<open>JSON.parse\<close> produces, and \<open>undefined\<close>,
  the value of a missing property. An object is the list of its own properties, each
  name once.
\<close>

datatype jsval =
  JUndefined
  | JNull
  | JBool bool
  | JNum real
  | JStr string
  | JArr "jsval list"
  | JObj "(string \<times> jsval) list"

text \<open>
  What can be thrown: a \<open>TypeError\<close> or a \<open>ReferenceError\<close> of the language, the
  rejection of \<open>fetch\<close> on a transport failure, the rejection of \<open>r.json()\<close> on a body
  that is not JSON, and the \<open>Error('Failed to load GeoJSON: ' + r.status)\<close> of line 108.
\<close>

datatype js_error =
  TypeError
  | ReferenceError
  | NetworkError
  | SyntaxError
  | FailedToLoad nat

text \<open>
  \<open>v.name\<close> for the names \<open>features\<close>, \<open>geometry\<close>, \<open>type\<close> and \<open>coordinates\<close>, which
  no built-in prototype defines: a \<open>TypeError\<close> on \<open>undefined\<close> and \<open>null\<close>, the own
  property of an object, \<open>undefined\<close> otherwise.
\<close>

fun getProp :: "jsval \<Rightarrow> string \<Rightarrow> js_error + jsval" where
  "getProp JUndefined name = Inl TypeError"
| "getProp JNull name = Inl TypeError"
| "getProp (JObj props) name =
     Inr (case map_of props name of None \<Rightarrow> JUndefined | Some v \<Rightarrow> v)"
| "getProp v name = Inr JUndefined"

text \<open>
  \<open>v[0]\<close>: the first element of an array, the first character of a string, the
  property \<open>"0"\<close> of an object, \<open>undefined\<close> when there is none; a \<open>TypeError\<close> on
  \<open>undefined\<close> and \<open>null\<close>.
\<close>

fun elem0 :: "jsval \<Rightarrow> js_error + jsval" where
  "elem0 JUndefined = Inl TypeError"
| "elem0 JNull = Inl TypeError"
| "elem0 (JArr []) = Inr JUndefined"
| "elem0 (JArr (v # vs)) = Inr v"
| "elem0 (JStr []) = Inr JUndefined"
| "elem0 (JStr (c # cs)) = Inr (JStr [c])"
| "elem0 (JObj props) = Inr (case map_of props ''0'' of None \<Rightarrow> JUndefined | Some v \<Rightarrow> v)"
| "elem0 v = Inr JUndefined"

text \<open>\<open>!v\<close> is \<open>\<not> truthy v\<close>.\<close>

fun truthy :: "jsval \<Rightarrow> bool" where
  "truthy JUndefined = False"
| "truthy JNull = False"
| "truthy (JBool b) = b"
| "truthy (JNum r) = (r \<noteq> 0)"
| "truthy (JStr s) = (s \<noteq> [])"
| "truthy (JArr vs) = True"
| "truthy (JObj props) = True"

text \<open>\<open>typeof v === 'number'\<close>.\<close>

fun isNumber :: "jsval \<Rightarrow> bool" where
  "isNumber (JNum r) = True"
| "isNumber v = False"

text \<open>
  A loop over a list whose body may throw: the state changes made before the exception
  stay, the rest of the list is not visited.
\<close>

fun forEach :: "('a \<Rightarrow> 's \<Rightarrow> 's \<times> js_error option) \<Rightarrow> 'a list \<Rightarrow> 's \<Rightarrow> 's \<times> js_error option" where
  "forEach f [] s = (s, None)"
| "forEach f (x # xs) s =
     (case f x s of
        (s', None) \<Rightarrow> forEach f xs s'
      | (s', Some e) \<Rightarrow> (s', Some e))"

text \<open>
  \<open>v.forEach(f)\<close> on a value: the loop over an array; a \<open>TypeError\<close> on anything else
  (no property to read on \<open>undefined\<close> and \<open>null\<close>, no function \<open>forEach\<close> on the
  others).
\<close>

fun forEachJ :: "(jsval \<Rightarrow> 's \<Rightarrow> 's \<times> js_error option) \<Rightarrow> jsval \<Rightarrow> 's \<Rightarrow> 's \<times> js_error option" where
  "forEachJ f (JArr vs) s = forEach f vs s"
| "forEachJ f v s = (s, Some TypeError)"

subsection \<open>Border renderer\<close>

text \<open>
  A point pushed to \<open>points\<close>. For a position \<open>[lon, lat, ...]\<close> of two numbers it is
  the projected vector. On any other array or string the destructuring succeeds and
  JavaScript converts the operands of the arithmetic implicitly; the model does not
  compute that conversion and keeps the position as it is in \<open>Unconverted\<close>.
\<close>

datatype vertex =
  Vertex vector3
  | Unconverted jsval

text \<open>
  A \<open>THREE.LineLoop\<close> is modelled by the points of its geometry; the material is the
  constant \<open>borderMaterial\<close>. The children of \<open>bordersGroup\<close> are a list of line loops.
\<close>

type_synonym lineloop = "vertex list"

definition EARTH_RADIUS :: real where
  "EARTH_RADIUS = 200"

text \<open>
  The body of the inner loop, lines 84-86: \<open>([lon, lat]) => points.push(latLonToVector3(lat,
  lon, radius + 0.5))\<close>. Destructuring a value that is not iterable is a \<open>TypeError\<close>.
\<close>

fun pushPoint :: "real \<Rightarrow> jsval \<Rightarrow> vertex list \<Rightarrow> vertex list \<times> js_error option" where
  "pushPoint radius (JArr (JNum lon # JNum lat # rest)) points =
     (points @ [Vertex (latLonToVector3 lat lon (radius + 0.5))], None)"
| "pushPoint radius (JArr vs) points = (points @ [Unconverted (JArr vs)], None)"
| "pushPoint radius (JStr s) points = (points @ [Unconverted (JStr s)], None)"
| "pushPoint radius v points = (points, Some TypeError)"

text \<open>
  The body of the outer loop, lines 82-91: the points of one ring, then one line loop
  added to the group. When the inner loop throws, no line is added.
\<close>

definition drawRing :: "real \<Rightarrow> jsval \<Rightarrow> lineloop list \<Rightarrow> lineloop list \<times> js_error option" where
  "drawRing radius ring loops =
     (case forEachJ (pushPoint radius) ring [] of
        (points, None) \<Rightarrow> (loops @ [points], None)
      | (points, Some e) \<Rightarrow> (loops, Some e))"

text \<open>The guard of line 78: \<open>!Array.isArray(coords) || coords.length === 0\<close>.\<close>

fun notArrayOrEmpty :: "jsval \<Rightarrow> bool" where
  "notArrayOrEmpty (JArr vs) = (length vs = 0)"
| "notArrayOrEmpty v = True"

text \<open>
  Line 80: \<open>(typeof coords[0][0] === 'number') ? [coords] : coords\<close>, on any value.
\<close>

definition ringsOf :: "jsval \<Rightarrow> js_error + jsval" where
  "ringsOf coords =
     (case elem0 coords of
        Inl e \<Rightarrow> Inl e
      | Inr c0 \<Rightarrow>
          (case elem0 c0 of
             Inl e \<Rightarrow> Inl e
           | Inr c00 \<Rightarrow> Inr (if isNumber c00 then JArr [coords] else coords)))"

text \<open>\<open>drawCountryLine(coords, material, radius)\<close>, lines 77-92.\<close>

definition drawCountryLine :: "jsval \<Rightarrow> real \<Rightarrow> lineloop list \<Rightarrow> lineloop list \<times> js_error option" where
  "drawCountryLine coords radius loops =
     (if notArrayOrEmpty coords then (loops, None)
      else
        (case ringsOf coords of
           Inl e \<Rightarrow> (loops, Some e)
         | Inr rings \<Rightarrow> forEachJ (drawRing radius) rings loops))"

text \<open>The callback of \<open>geojson.features.forEach\<close>, lines 112-121.\<close>

definition drawFeature :: "jsval \<Rightarrow> lineloop list \<Rightarrow> lineloop list \<times> js_error option" where
  "drawFeature feature loops =
     (case getProp feature ''geometry'' of
        Inl e \<Rightarrow> (loops, Some e)
      | Inr geom \<Rightarrow>
          if \<not> truthy geom then (loops, None)
          else
            (case getProp geom ''type'' of
               Inl e \<Rightarrow> (loops, Some e)
             | Inr ty \<Rightarrow>
                 if ty = JStr ''Polygon'' then
                   (case getProp geom ''coordinates'' of
                      Inl e \<Rightarrow> (loops, Some e)
                    | Inr coordinates \<Rightarrow> drawCountryLine coordinates EARTH_RADIUS loops)
                 else if ty = JStr ''MultiPolygon'' then
                   (case getProp geom ''coordinates'' of
                      Inl e \<Rightarrow> (loops, Some e)
                    | Inr coordinates \<Rightarrow>
                        forEachJ (\<lambda>poly. drawCountryLine poly EARTH_RADIUS) coordinates loops)
                 else (loops, None)))"

text \<open>The second \<open>then\<close> handler, lines 111-122.\<close>

definition drawGeoJSON :: "jsval \<Rightarrow> lineloop list \<Rightarrow> lineloop list \<times> js_error option" where
  "drawGeoJSON geojson loops =
     (case getProp geojson ''features'' of
        Inl e \<Rightarrow> (loops, Some e)
      | Inr features \<Rightarrow> forEachJ drawFeature features loops)"

subsection \<open>Fetching the borders\<close>

text \<open>
  What \<open>fetch(GEOJSON_URL)\<close> settles with: a rejection on a transport failure, or a
  response with its status and its body, \<open>None\<close> when the body is not JSON. \<open>r.ok\<close> is
  true for the statuses 200 to 299.
\<close>

record response =
  status :: nat
  body :: "jsval option"

datatype fetched =
  Rejected
  | Resolved response

definition ok :: "response \<Rightarrow> bool" where
  "ok r \<longleftrightarrow> 200 \<le> status r \<and> status r \<le> 299"

text \<open>
  What the promise chain acts on: the children of \<open>bordersGroup\<close> and the warnings
  written with \<open>console.warn\<close>.
\<close>

record scene =
  borders :: "lineloop list"
  warnings :: "js_error list"

text \<open>
  A settled promise with the state left behind: \<open>Inl\<close> rejected, \<open>Inr\<close> fulfilled.
  \<open>thenP\<close> runs its handler on a fulfilled promise and passes a rejection on; \<open>catchP\<close>
  runs its handler on a rejected promise and passes a value on.
\<close>

definition thenP :: "'s \<times> (js_error + 'a) \<Rightarrow> ('a \<Rightarrow> 's \<Rightarrow> 's \<times> (js_error + 'b)) \<Rightarrow> 's \<times> (js_error + 'b)" where
  "thenP p f = (case p of (s, Inl e) \<Rightarrow> (s, Inl e) | (s, Inr v) \<Rightarrow> f v s)"

definition catchP :: "'s \<times> (js_error + 'a) \<Rightarrow> (js_error \<Rightarrow> 's \<Rightarrow> 's \<times> (js_error + 'a)) \<Rightarrow> 's \<times> (js_error + 'a)" where
  "catchP p f = (case p of (s, Inl e) \<Rightarrow> f e s | (s, Inr v) \<Rightarrow> (s, Inr v))"

text \<open>The first handler, lines 107-110.\<close>

definition checkResponse :: "response \<Rightarrow> scene \<Rightarrow> scene \<times> (js_error + jsval)" where
  "checkResponse r s =
     (if \<not> ok r then (s, Inl (FailedToLoad (status r)))
      else (case body r of None \<Rightarrow> (s, Inl SyntaxError) | Some geojson \<Rightarrow> (s, Inr geojson)))"

text \<open>The second handler, lines 111-122, on the group of the scene.\<close>

definition drawBorders :: "jsval \<Rightarrow> scene \<Rightarrow> scene \<times> (js_error + unit)" where
  "drawBorders geojson s =
     (case drawGeoJSON geojson (borders s) of
        (loops, None) \<Rightarrow> (s\<lparr>borders := loops\<rparr>, Inr ())
      | (loops, Some e) \<Rightarrow> (s\<lparr>borders := loops\<rparr>, Inl e))"

text \<open>The \<open>catch\<close> handler, lines 123-125: one warning, and the promise is fulfilled.\<close>

definition warn :: "js_error \<Rightarrow> scene \<Rightarrow> scene \<times> (js_error + unit)" where
  "warn err s = (s\<lparr>warnings := warnings s @ [err]\<rparr>, Inr ())"

text \<open>
  The chain of lines 106-125, started on the empty group of line 61 with nothing logged;
  the result is the scene and the state of the last promise.
\<close>

definition fetchBorders :: "fetched \<Rightarrow> scene \<times> (js_error + unit)" where
  "fetchBorders f =
     (let s0 = \<lparr>borders = [], warnings = []\<rparr>;
          p0 = (case f of Rejected \<Rightarrow> (s0, Inl NetworkError) | Resolved r \<Rightarrow> (s0, Inr r))
      in catchP (thenP (thenP p0 checkResponse) drawBorders) warn)"

subsection \<open>Section navigation and quiz\<close>

text \<open>
  An element of the document, as far as \<open>showSection\<close> touches it: whether its class
  list holds \<open>active\<close>, and its inline \<open>style.zIndex\<close> (\<open>None\<close> when not set).
\<close>

record element =
  active :: bool
  zIndex :: "int option"

text \<open>
  The callbacks handed to \<open>setTimeout\<close>, by what they will do: set the z-index of the
  section found under an id to -1; add \<open>active\<close> to the section found under an id and
  then scroll to the top 100 ms later; call a function of the file by name.
\<close>

datatype task =
  HideSection string
  | ActivateSection string
  | Call string

text \<open>
  The state \<open>showSection\<close> acts on: the global \<open>currentSectionId\<close>, the elements of the
  document by id, the timers set (delay in ms and callback, in the order they were set),
  the values logged after \<open>'Navigating to:'\<close>, and the URLs pushed on the history.
\<close>

record page =
  currentSectionId :: jsval
  elements :: "string \<Rightarrow> element option"
  timers :: "(nat \<times> task) list"
  logged :: "jsval list"
  pushed :: "string list"

definition setTimeout :: "task \<Rightarrow> nat \<Rightarrow> page \<Rightarrow> page" where
  "setTimeout callback delay p = p\<lparr>timers := timers p @ [(delay, callback)]\<rparr>"

text \<open>
  \<open>showSection(targetId)\<close>, lines 201-279. Two things it uses are not in the file and
  are parameters: \<open>toStr\<close>, the conversion of a value to a string that
  \<open>getElementById\<close> and the template literal apply, and \<open>initializeChart\<close>, called on
  line 232 and defined nowhere in the file, given by the page it leaves and the exception
  it throws, if any. An exception leaves \<open>showSection\<close> at once.
\<close>

definition showSection ::
  "(jsval \<Rightarrow> string) \<Rightarrow> (page \<Rightarrow> page \<times> js_error option) \<Rightarrow> jsval \<Rightarrow> page
     \<Rightarrow> page \<times> js_error option" where
  "showSection toStr initializeChart targetId p =
     (let p1 = p\<lparr>logged := logged p @ [targetId]\<rparr>;
          cur = toStr (currentSectionId p1);
          p2 = (case elements p1 cur of
                  None \<Rightarrow> p1
                | Some currentSection \<Rightarrow>
                    setTimeout (HideSection cur) 800
                      (p1\<lparr>elements := (elements p1)(cur \<mapsto> currentSection\<lparr>active := False\<rparr>)\<rparr>));
          new = toStr targetId;
          p3 = (case elements p2 new of
                  None \<Rightarrow> p2
                | Some newSection \<Rightarrow>
                    (setTimeout (ActivateSection new) 50
                       (p2\<lparr>elements := (elements p2)(new \<mapsto> newSection\<lparr>zIndex := Some 1\<rparr>)\<rparr>))
                    \<lparr>currentSectionId := targetId\<rparr>)
      in case (if targetId = JStr ''correct_metrics'' then initializeChart p3 else (p3, None)) of
           (p4, Some e) \<Rightarrow> (p4, Some e)
         | (p4, None) \<Rightarrow>
             (let p5 = (if targetId = JStr ''california-forecast''
                        then setTimeout (Call ''initializeAirQualityChart'') 500 p4 else p4);
                  p6 = (if targetId = JStr ''california-case''
                        then setTimeout (Call ''initializeInteractiveButtons'') 500 p5 else p5);
                  p7 = (if targetId = JStr ''medellin-case''
                        then setTimeout (Call ''restartMedellinChartAnimations'') 500 p6 else p6);
                  p8 = (if targetId = JStr ''quiz''
                        then setTimeout (Call ''initializeQuizTransition'') 100 p7 else p7);
                  p9 = (if targetId = JStr ''solutions''
                        then setTimeout (Call ''initializeSolutionsNavigation'') 500 p8 else p8);
                  p10 = (if targetId = JStr ''applications''
                         then setTimeout (Call ''initializeActionForm'') 500 p9 else p9)
              in (p10\<lparr>pushed := pushed p10 @ [''#'' @ toStr targetId]\<rparr>, None)))"

text \<open>\<open>handleQuiz(option)\<close>, lines 282-288.\<close>

definition handleQuiz ::
  "(jsval \<Rightarrow> string) \<Rightarrow> (page \<Rightarrow> page \<times> js_error option) \<Rightarrow> jsval \<Rightarrow> page
     \<Rightarrow> page \<times> js_error option" where
  "handleQuiz toStr initializeChart option p =
     (if option = JStr ''correct'' then showSection toStr initializeChart (JStr ''correct'') p
      else showSection toStr initializeChart option p)"

subsection \<open>GeoJSON coordinates\<close>

text \<open>
  How a position \<open>[lon, lat]\<close> and a ring of positions arrive from \<open>JSON.parse\<close>, and the
  vertex the renderer is to make of a position: its projection at
  \<open>EARTH_RADIUS + 0.5\<close>.
\<close>

definition positionJ :: "real \<times> real \<Rightarrow> jsval" where
  "positionJ p = JArr [JNum (fst p), JNum (snd p)]"

definition ringJ :: "(real \<times> real) list \<Rightarrow> jsval" where
  "ringJ ps = JArr (map positionJ ps)"

definition borderVertex :: "real \<times> real \<Rightarrow> vertex" where
  "borderVertex p = Vertex (latLonToVector3 (snd p) (fst p) (EARTH_RADIUS + 0.5))"

text \<open>A square ring of four positions, and features to run the renderer on.\<close>

definition squareRing :: "real \<Rightarrow> (real \<times> real) list" where
  "squareRing a = [(a, a), (a + 10, a), (a + 10, a + 10), (a, a + 10)]"

definition multiPolygonFeature :: "jsval \<Rightarrow> jsval" where
  "multiPolygonFeature coordinates =
     JObj [(''type'', JStr ''Feature''),
           (''geometry'', JObj [(''type'', JStr ''MultiPolygon''), (''coordinates'', coordinates)])]"

definition nullGeometryFeature :: jsval where
  "nullGeometryFeature = JObj [(''type'', JStr ''Feature''), (''geometry'', JNull)]"

section \<open>Properties\<close>

subsection \<open>Projection\<close>

text \<open>
  C2. For every latitude, longitude and radius (in particular latitude in [-90,90],
  longitude in [-180,180] and radius > 0), the projection computes
  phi = (90 - latitude) * pi/180, theta = (longitude + 180) * pi/180 and returns
  x = -radius * sin phi * cos theta, y = radius * cos phi, z = radius * sin phi * sin theta,
  with the negated x and the 180 degree offset of the longitude.
\<close>

theorem latLonToVector3_formula:
  "vec_x (latLonToVector3 lat lon r)
     = - r * sin ((90 - lat) * pi / 180) * cos ((lon + 180) * pi / 180) \<and>
   vec_y (latLonToVector3 lat lon r) = r * cos ((90 - lat) * pi / 180) \<and>
   vec_z (latLonToVector3 lat lon r)
     = r * sin ((90 - lat) * pi / 180) * sin ((lon + 180) * pi / 180)"
  by (simp add: latLonToVector3_def Let_def)

text \<open>
  C8. The point returned by the projection lies at Euclidean distance exactly r from the
  origin: x^2 + y^2 + z^2 = r^2 over the reals, for every latitude, longitude and radius
  (in particular in the stated ranges).
\<close>

theorem latLonToVector3_on_sphere:
  "(vec_x (latLonToVector3 lat lon r))\<^sup>2 + (vec_y (latLonToVector3 lat lon r))\<^sup>2
     + (vec_z (latLonToVector3 lat lon r))\<^sup>2 = r\<^sup>2"
proof -
  define phi where "phi = (90 - lat) * (pi / 180)"
  define theta where "theta = (lon + 180) * (pi / 180)"
  define s where "s = (sin phi)\<^sup>2"
  define c where "c = (cos phi)\<^sup>2"
  have t: "(cos theta)\<^sup>2 + (sin theta)\<^sup>2 = 1"
    by simp
  have p: "s + c = 1"
    by (simp add: s_def c_def)
  have "(- r * sin phi * cos theta)\<^sup>2 + (r * cos phi)\<^sup>2 + (r * sin phi * sin theta)\<^sup>2
        = r\<^sup>2 * (s * ((cos theta)\<^sup>2 + (sin theta)\<^sup>2) + c)"
    unfolding s_def c_def by (simp only: power_mult_distrib power2_minus distrib_left mult.assoc)
  also have "\<dots> = r\<^sup>2 * (s + c)"
    by (simp only: t mult_1_right)
  also have "\<dots> = r\<^sup>2"
    by (simp only: p mult_1_right)
  finally show ?thesis
    by (simp add: latLonToVector3_def Let_def phi_def theta_def)
qed

subsection \<open>Rotation\<close>

text \<open>
  The invariant of the rotation state: the borders group has the orientation of the
  Earth mesh, and the cloud mesh agrees with the Earth mesh about the x and z axes.
\<close>

lemma dispatch_keeps_layers:
  assumes "bordersGroup g = earthMesh g"
    and "rot_x (cloudMesh g) = rot_x (earthMesh g)"
    and "rot_z (cloudMesh g) = rot_z (earthMesh g)"
  shows "bordersGroup (dispatch ev g) = earthMesh (dispatch ev g)"
    and "rot_x (cloudMesh (dispatch ev g)) = rot_x (earthMesh (dispatch ev g))"
    and "rot_z (cloudMesh (dispatch ev g)) = rot_z (earthMesh (dispatch ev g))"
  using assms
  by (cases ev;
      auto simp: animate_def pointerdown_def pointerup_def pointermove_def Let_def
        intro!: euler.equality)+

lemma run_keeps_layers:
  "bordersGroup g = earthMesh g \<and>
   rot_x (cloudMesh g) = rot_x (earthMesh g) \<and>
   rot_z (cloudMesh g) = rot_z (earthMesh g) \<Longrightarrow>
   bordersGroup (run evs g) = earthMesh (run evs g) \<and>
   rot_x (cloudMesh (run evs g)) = rot_x (earthMesh (run evs g)) \<and>
   rot_z (cloudMesh (run evs g)) = rot_z (earthMesh (run evs g))"
  by (induction evs arbitrary: g) (simp_all add: dispatch_keeps_layers)

lemma pointermove_copies:
  "isDragging g \<Longrightarrow> cloudMesh (pointermove e g) = earthMesh (pointermove e g)
     \<and> bordersGroup (pointermove e g) = earthMesh (pointermove e g)"
  by (simp add: pointermove_def Let_def)

text \<open>
  C1, as the code has it. After every event of any finite sequence of animation frames
  and pointer events from the initial state, the borders group has the orientation of the
  Earth mesh, and the cloud mesh has the Earth mesh's rotation about the x axis (pitch)
  and about the z axis. After a pointer-move during a drag session, the cloud mesh and
  the borders group both have the whole orientation of the Earth mesh. Only the cloud's
  yaw may differ from the Earth's: an animation frame does not copy the Earth's yaw to
  the cloud mesh but advances the cloud's yaw at its own rate, 0.095 per second, and
  leaves the cloud's rotation about the x and z axes as it was.
\<close>

theorem layers_follow_earth:
  "bordersGroup (run evs initialGlobe) = earthMesh (run evs initialGlobe) \<and>
   rot_x (cloudMesh (run evs initialGlobe)) = rot_x (earthMesh (run evs initialGlobe)) \<and>
   rot_z (cloudMesh (run evs initialGlobe)) = rot_z (earthMesh (run evs initialGlobe)) \<and>
   (isDragging g \<longrightarrow>
      cloudMesh (pointermove e g) = earthMesh (pointermove e g) \<and>
      bordersGroup (pointermove e g) = earthMesh (pointermove e g)) \<and>
   rot_y (cloudMesh (animate t g)) = rot_y (cloudMesh g) + 0.095 * ((t - lastTime g) / 1000) \<and>
   rot_x (cloudMesh (animate t g)) = rot_x (cloudMesh g) \<and>
   rot_z (cloudMesh (animate t g)) = rot_z (cloudMesh g)"
proof -
  have "bordersGroup initialGlobe = earthMesh initialGlobe \<and>
        rot_x (cloudMesh initialGlobe) = rot_x (earthMesh initialGlobe) \<and>
        rot_z (cloudMesh initialGlobe) = rot_z (earthMesh initialGlobe)"
    by (simp add: initialGlobe_def)
  then have "bordersGroup (run evs initialGlobe) = earthMesh (run evs initialGlobe) \<and>
        rot_x (cloudMesh (run evs initialGlobe)) = rot_x (earthMesh (run evs initialGlobe)) \<and>
        rot_z (cloudMesh (run evs initialGlobe)) = rot_z (earthMesh (run evs initialGlobe))"
    by (rule run_keeps_layers)
  moreover have "rot_y (cloudMesh (animate t g))
      = rot_y (cloudMesh g) + 0.095 * ((t - lastTime g) / 1000)"
    by (simp add: animate_def orZero_def Let_def)
  moreover have "rot_x (cloudMesh (animate t g)) = rot_x (cloudMesh g)"
    and "rot_z (cloudMesh (animate t g)) = rot_z (cloudMesh g)"
    by (simp_all add: animate_def Let_def)
  ultimately show ?thesis
    using pointermove_copies [of g e] by simp
qed

theorem layers_follow_earth_witness:
  "bordersGroup (run [AnimationFrame 16, PointerDown (100, 100), PointerMove (150, 130),
       AnimationFrame 32] initialGlobe)
     = earthMesh (run [AnimationFrame 16, PointerDown (100, 100), PointerMove (150, 130),
       AnimationFrame 32] initialGlobe) \<and>
   rot_x (cloudMesh (run [AnimationFrame 16, PointerDown (100, 100), PointerMove (150, 130),
       AnimationFrame 32] initialGlobe))
     = rot_x (earthMesh (run [AnimationFrame 16, PointerDown (100, 100), PointerMove (150, 130),
       AnimationFrame 32] initialGlobe)) \<and>
   isDragging (pointerdown (100, 100) initialGlobe) \<and>
   cloudMesh (pointermove (150, 130) (pointerdown (100, 100) initialGlobe))
     = earthMesh (pointermove (150, 130) (pointerdown (100, 100) initialGlobe))"
  using layers_follow_earth [of "[AnimationFrame 16, PointerDown (100, 100),
      PointerMove (150, 130), AnimationFrame 32]" "pointerdown (100, 100) initialGlobe"
      "(150, 130)" 0]
  by (simp add: pointerdown_def)

text \<open>
  C1 as stated fails: after the single animation frame at 1000 ms from the initial
  state, the cloud mesh has yaw 0.095 and the Earth mesh has yaw 0.08.
\<close>

theorem cloud_differs_after_frame:
  "cloudMesh (run [AnimationFrame 1000] initialGlobe)
     \<noteq> earthMesh (run [AnimationFrame 1000] initialGlobe)"
  by (simp add: animate_def initialGlobe_def euler0_def orZero_def Let_def)

text \<open>
  C3, as the code has it. Every callback, the first one too, advances the yaw of the
  Earth mesh by 0.08 * (t - lastTime) / 1000 and stores t as the new lastTime; on the
  first callback lastTime is its initial value 0, so the yaw becomes 0.08 * t / 1000.
\<close>

theorem animate_advances_yaw:
  "rot_y (earthMesh (animate t g)) = rot_y (earthMesh g) + 0.08 * ((t - lastTime g) / 1000) \<and>
   lastTime (animate t g) = t \<and>
   rot_y (earthMesh (animate t initialGlobe)) = 0.08 * (t / 1000)"
  by (simp add: animate_def orZero_def Let_def initialGlobe_def euler0_def)

text \<open>
  C3 as stated fails: the first callback, at 1000 ms, changes the yaw of the Earth mesh.
\<close>

theorem first_frame_changes_yaw:
  "rot_y (earthMesh (animate 1000 initialGlobe)) \<noteq> rot_y (earthMesh initialGlobe)"
  by (simp add: animate_def initialGlobe_def euler0_def orZero_def Let_def)

text \<open>
  C7. From any state, a pointer-down at (100,100) followed by a pointer-move to (150,130)
  adds 0.25 to the yaw and 0.075 to the pitch of the Earth mesh, and leaves the cloud mesh
  and the borders group with the orientation of the Earth mesh.
\<close>

theorem drag_50_30:
  "rot_y (earthMesh (pointermove (150, 130) (pointerdown (100, 100) g)))
     = rot_y (earthMesh g) + 0.25 \<and>
   rot_x (earthMesh (pointermove (150, 130) (pointerdown (100, 100) g)))
     = rot_x (earthMesh g) + 0.075 \<and>
   cloudMesh (pointermove (150, 130) (pointerdown (100, 100) g))
     = earthMesh (pointermove (150, 130) (pointerdown (100, 100) g)) \<and>
   bordersGroup (pointermove (150, 130) (pointerdown (100, 100) g))
     = earthMesh (pointermove (150, 130) (pointerdown (100, 100) g))"
  by (simp add: pointermove_def pointerdown_def rotationSpeed_def Let_def)

subsection \<open>Border renderer\<close>

lemma forEach_append:
  "forEach f (xs @ ys) s =
     (case forEach f xs s of (s', None) \<Rightarrow> forEach f ys s' | (s', Some e) \<Rightarrow> (s', Some e))"
  by (induction xs arbitrary: s) (auto split: prod.splits option.splits)

lemma pushPoint_positions:
  "forEach (pushPoint r) (map positionJ ps) acc
     = (acc @ map (\<lambda>p. Vertex (latLonToVector3 (snd p) (fst p) (r + 0.5))) ps, None)"
  by (induction ps arbitrary: acc) (simp_all add: positionJ_def)

lemma drawRing_ringJ:
  "drawRing EARTH_RADIUS (ringJ ps) loops = (loops @ [map borderVertex ps], None)"
  by (simp add: drawRing_def ringJ_def pushPoint_positions borderVertex_def)

lemma elem0_ringJ: "elem0 (ringJ (p # ps)) = Inr (positionJ p)"
  by (simp add: ringJ_def)

lemma elem0_positionJ: "elem0 (positionJ p) = Inr (JNum (fst p))"
  by (simp add: positionJ_def)

lemma notArrayOrEmpty_ringJ: "notArrayOrEmpty (ringJ ps) \<longleftrightarrow> ps = []"
  by (simp add: ringJ_def)

lemma isNumber_positionJ: "\<not> isNumber (positionJ p)"
  by (simp add: positionJ_def)

text \<open>A bare ring is taken as one ring; a list of rings gives one line per ring.\<close>

lemma drawCountryLine_ring:
  "ps \<noteq> [] \<Longrightarrow>
     drawCountryLine (ringJ ps) EARTH_RADIUS loops = (loops @ [map borderVertex ps], None)"
  by (cases ps)
    (simp_all add: drawCountryLine_def ringsOf_def drawRing_ringJ elem0_ringJ elem0_positionJ
      notArrayOrEmpty_ringJ)

lemma drawCountryLine_one_ring:
  "ps \<noteq> [] \<Longrightarrow>
     drawCountryLine (JArr [ringJ ps]) EARTH_RADIUS loops = (loops @ [map borderVertex ps], None)"
  by (cases ps)
    (simp_all add: drawCountryLine_def ringsOf_def drawRing_ringJ elem0_ringJ isNumber_positionJ)

lemma drawCountryLine_two_rings:
  "ps \<noteq> [] \<Longrightarrow>
     drawCountryLine (JArr [ringJ ps, ringJ qs]) EARTH_RADIUS loops
       = (loops @ [map borderVertex ps, map borderVertex qs], None)"
  by (cases ps)
    (simp_all add: drawCountryLine_def ringsOf_def drawRing_ringJ elem0_ringJ isNumber_positionJ)

lemma getProp_truthy: "truthy v \<Longrightarrow> \<exists>w. getProp v name = Inr w"
  by (cases v) simp_all

text \<open>
  C4. For a feature whose geometry has type MultiPolygon and whose coordinates hold two
  rings of four positions each (as one polygon of two rings, as two polygons of one ring,
  or as the two rings themselves), the renderer adds exactly two line loops to the borders
  group, each of four vertices, every vertex the projection of its position at radius
  \<open>EARTH_RADIUS + 0.5\<close>, and raises no error.
\<close>

theorem multipolygon_two_rings:
  assumes "length r1 = 4" and "length r2 = 4"
    and "getProp feature ''geometry'' = Inr geom"
    and "getProp geom ''type'' = Inr (JStr ''MultiPolygon'')"
    and "getProp geom ''coordinates'' = Inr coordinates"
    and "coordinates = JArr [JArr [ringJ r1, ringJ r2]]
         \<or> coordinates = JArr [JArr [ringJ r1], JArr [ringJ r2]]
         \<or> coordinates = JArr [ringJ r1, ringJ r2]"
  shows "drawFeature feature loops = (loops @ [map borderVertex r1, map borderVertex r2], None)
         \<and> length (map borderVertex r1) = 4 \<and> length (map borderVertex r2) = 4"
proof -
  have ne: "r1 \<noteq> []" "r2 \<noteq> []"
    using assms(1,2) by auto
  have t: "truthy geom"
    using assms(4) by (cases geom) simp_all
  have "drawFeature feature loops
          = forEachJ (\<lambda>poly. drawCountryLine poly EARTH_RADIUS) coordinates loops"
    using assms(3,4,5) t by (simp add: drawFeature_def)
  also have "\<dots> = (loops @ [map borderVertex r1, map borderVertex r2], None)"
    using assms(6) ne
    by (auto simp: drawCountryLine_two_rings drawCountryLine_one_ring drawCountryLine_ring)
  finally show ?thesis
    using assms(1,2) by simp
qed

theorem multipolygon_two_rings_witness:
  "length (squareRing 0) = 4 \<and> length (squareRing 20) = 4 \<and>
   drawFeature (multiPolygonFeature (JArr [JArr [ringJ (squareRing 0), ringJ (squareRing 20)]])) []
     = ([map borderVertex (squareRing 0), map borderVertex (squareRing 20)], None) \<and>
   drawFeature (multiPolygonFeature (JArr [JArr [ringJ (squareRing 0)], JArr [ringJ (squareRing 20)]])) []
     = ([map borderVertex (squareRing 0), map borderVertex (squareRing 20)], None)"
  using
    multipolygon_two_rings [of "squareRing 0" "squareRing 20"
      "multiPolygonFeature (JArr [JArr [ringJ (squareRing 0), ringJ (squareRing 20)]])"
      "JObj [(''type'', JStr ''MultiPolygon''),
             (''coordinates'', JArr [JArr [ringJ (squareRing 0), ringJ (squareRing 20)]])]"
      "JArr [JArr [ringJ (squareRing 0), ringJ (squareRing 20)]]" "[]"]
    multipolygon_two_rings [of "squareRing 0" "squareRing 20"
      "multiPolygonFeature (JArr [JArr [ringJ (squareRing 0)], JArr [ringJ (squareRing 20)]])"
      "JObj [(''type'', JStr ''MultiPolygon''),
             (''coordinates'', JArr [JArr [ringJ (squareRing 0)], JArr [ringJ (squareRing 20)]])]"
      "JArr [JArr [ringJ (squareRing 0)], JArr [ringJ (squareRing 20)]]" "[]"]
  by (simp add: multiPolygonFeature_def squareRing_def)

lemma drawFeature_skips:
  assumes "getProp feature ''geometry'' = Inr geom"
    and "geom = JUndefined \<or> geom = JNull
         \<or> (getProp geom ''type'' \<noteq> Inr (JStr ''Polygon'')
            \<and> getProp geom ''type'' \<noteq> Inr (JStr ''MultiPolygon''))"
  shows "drawFeature feature loops = (loops, None)"
  using assms getProp_truthy [of geom "''type''"]
  by (auto simp: drawFeature_def split: sum.splits)

text \<open>
  C5. A feature whose geometry is missing or null, or whose geometry type is neither
  "Polygon" nor "MultiPolygon", adds no line loop and raises no error; a sequence of
  features that contains it is processed as the sequence without it, so the features after
  it are still drawn.
\<close>

theorem unsupported_feature_skipped:
  assumes "getProp feature ''geometry'' = Inr geom"
    and "geom = JUndefined \<or> geom = JNull
         \<or> (getProp geom ''type'' \<noteq> Inr (JStr ''Polygon'')
            \<and> getProp geom ''type'' \<noteq> Inr (JStr ''MultiPolygon''))"
  shows "drawFeature feature loops = (loops, None) \<and>
         forEachJ drawFeature (JArr (before @ feature # after)) loops'
           = forEachJ drawFeature (JArr (before @ after)) loops'"
proof -
  have skip: "drawFeature feature l = (l, None)" for l
    using assms by (rule drawFeature_skips)
  have "forEach drawFeature (before @ feature # after) loops'
          = forEach drawFeature (before @ after) loops'"
    by (simp add: forEach_append skip split: prod.splits option.splits)
  then show ?thesis
    using skip by simp
qed

theorem unsupported_feature_skipped_witness:
  "getProp nullGeometryFeature ''geometry'' = Inr JNull \<and>
   drawFeature nullGeometryFeature [] = ([], None) \<and>
   forEachJ drawFeature
       (JArr [nullGeometryFeature, multiPolygonFeature (JArr [JArr [ringJ (squareRing 0)]])]) []
     = forEachJ drawFeature (JArr [multiPolygonFeature (JArr [JArr [ringJ (squareRing 0)]])]) []"
  using unsupported_feature_skipped [of nullGeometryFeature JNull "[]" "[]"
      "[multiPolygonFeature (JArr [JArr [ringJ (squareRing 0)]])]" "[]"]
  by (simp add: nullGeometryFeature_def)

text \<open>
  C10. Called with coordinates that are not an array, or with the empty array,
  \<open>drawCountryLine\<close> returns with the borders group unchanged and no error. Whenever the
  guard lets the coordinates through to the ring-shape detection, they are a non-empty
  array, and \<open>coords[0]\<close> is its first element.
\<close>

theorem drawCountryLine_guard:
  "((\<forall>vs. coords \<noteq> JArr vs) \<or> coords = JArr [] \<longrightarrow>
      drawCountryLine coords radius loops = (loops, None)) \<and>
   (\<not> notArrayOrEmpty coords' \<longrightarrow>
      (\<exists>c0 cs. coords' = JArr (c0 # cs) \<and> elem0 coords' = Inr c0))"
  by (cases coords; cases coords' rule: notArrayOrEmpty.cases)
    (auto simp: drawCountryLine_def neq_Nil_conv)

theorem drawCountryLine_guard_witness:
  "(\<forall>vs. JUndefined \<noteq> JArr vs) \<and>
   drawCountryLine JUndefined EARTH_RADIUS [] = ([], None) \<and>
   \<not> notArrayOrEmpty (ringJ (squareRing 0)) \<and>
   (\<exists>c0 cs. ringJ (squareRing 0) = JArr (c0 # cs) \<and> elem0 (ringJ (squareRing 0)) = Inr c0)"
  using drawCountryLine_guard [of JUndefined EARTH_RADIUS "[]" "ringJ (squareRing 0)"]
  by (simp add: ringJ_def squareRing_def)

subsection \<open>Fetching the borders\<close>

text \<open>
  C6. When the fetch fails, by a transport error or by a response whose status is not
  200 to 299, the chain leaves the borders group empty, logs exactly one warning, and
  its last promise is fulfilled: no rejection is left unhandled.
\<close>

theorem failed_fetch_is_recovered:
  assumes "f = Rejected \<or> (\<exists>r. f = Resolved r \<and> \<not> ok r)"
  shows "borders (fst (fetchBorders f)) = [] \<and>
         length (warnings (fst (fetchBorders f))) = 1 \<and>
         snd (fetchBorders f) = Inr ()"
  using assms
  by (auto simp: fetchBorders_def thenP_def catchP_def checkResponse_def warn_def Let_def)

theorem failed_fetch_is_recovered_witness:
  "\<not> ok \<lparr>status = 500, body = None\<rparr> \<and>
   borders (fst (fetchBorders (Resolved \<lparr>status = 500, body = None\<rparr>))) = [] \<and>
   length (warnings (fst (fetchBorders (Resolved \<lparr>status = 500, body = None\<rparr>)))) = 1 \<and>
   snd (fetchBorders (Resolved \<lparr>status = 500, body = None\<rparr>)) = Inr ()"
  using failed_fetch_is_recovered [of "Resolved \<lparr>status = 500, body = None\<rparr>"]
  by (simp add: ok_def)

subsection \<open>Quiz\<close>

text \<open>
  C9. For every option value, \<open>handleQuiz(option)\<close> does what \<open>showSection(option)\<close>
  does: the same page afterwards and the same exception, if any.
\<close>

theorem handleQuiz_is_showSection:
  "handleQuiz toStr initializeChart option p = showSection toStr initializeChart option p"
  by (simp add: handleQuiz_def)

end
